theory Spec2Isabelle
  imports Main
begin

section \<open>pgx-reconnect: the reconnecting connection wrapper of reconnect.go\<close>

text \<open>
  The package wraps one driver connection (\<open>*pgx.Conn\<close>) and re-establishes it with
  \<open>backoff.Retry\<close>. The driver and the backoff library are external: they appear here as
  an environment whose answers are functions of the calls made so far, so every
  deterministic behaviour of the two libraries is an instance.
\<close>

subsection \<open>Errors\<close>

text \<open>
  An error produced outside the package (by the driver) is seen by the code through
  four observations only: the text of \<open>err.Error()\<close>, \<open>pgconn.Timeout(err)\<close>,
  \<open>errors.Is(err, &pgconn.ConnectError{})\<close> and \<open>pgconn.SafeToRetry(err)\<close>.

  The third observation is not the kind of the error. Its target is a pointer allocated
  at line 139, and \<open>errors.Is\<close> compares each error of the chain with the target by
  identity, unless that error has an \<open>Is\<close> method that accepts the target;
  \<open>*pgconn.ConnectError\<close> has no such method. What the error is, a connection
  establishment failure of the driver or an error that wraps one (what \<open>errors.As\<close>
  with a \<open>*pgconn.ConnectError\<close> target would find), is the field
  \<open>wraps_ConnectError\<close>, which the code never reads.
\<close>

record drv_error =
  err_Error :: string
  pgconn_Timeout :: bool
  errors_Is_ConnectError :: bool
  pgconn_SafeToRetry :: bool
  wraps_ConnectError :: bool

text \<open>
  The error values the package handles: its two sentinels, a driver error passed on,
  the errors of a context (\<open>ctx.Err()\<close>), the backoff library's
  \<open>*backoff.PermanentError\<close> with its field \<open>Err\<close> (which may be nil), and the
  composite built by \<open>fmt.Errorf("%w: %w, original error: %w", a, b, c)\<close>.
\<close>

datatype go_error =
    ErrNoConnString
  | ErrReconnect
  | Driver drv_error
  | ContextCanceled
  | ContextDeadlineExceeded
  | PermanentError "go_error option"
  | Errorf3 go_error go_error go_error

text \<open>
  \<open>errors.As(err, &pe)\<close> for \<open>pe\<close> a \<open>*backoff.PermanentError\<close>: the first error of
  that type in the tree of \<open>err\<close>, depth first; the result is the field \<open>pe.Err\<close>.
\<close>

fun errors_As_Permanent :: "go_error \<Rightarrow> go_error option option" where
  "errors_As_Permanent (PermanentError inner) = Some inner"
| "errors_As_Permanent (Errorf3 a b c) =
     (case errors_As_Permanent a of
        Some r \<Rightarrow> Some r
      | None \<Rightarrow>
          (case errors_As_Permanent b of
             Some r \<Rightarrow> Some r
           | None \<Rightarrow> errors_As_Permanent c))"
| "errors_As_Permanent _ = None"

text \<open>The errors a composite wraps (\<open>Unwrap() []error\<close>).\<close>

fun Unwrap :: "go_error \<Rightarrow> go_error list" where
  "Unwrap (Errorf3 a b c) = [a, b, c]"
| "Unwrap (PermanentError (Some e)) = [e]"
| "Unwrap _ = []"

subsection \<open>The retryability classifier\<close>

fun HasPrefix :: "string \<Rightarrow> string \<Rightarrow> bool" where
  "HasPrefix s [] = True"
| "HasPrefix [] (p # ps) = False"
| "HasPrefix (c # cs) (p # ps) = (c = p \<and> HasPrefix cs ps)"

text \<open>\<open>strings.Contains(s, substr)\<close>: \<open>substr\<close> occurs in \<open>s\<close>.\<close>

fun strings_Contains :: "string \<Rightarrow> string \<Rightarrow> bool" where
  "strings_Contains [] substr = (substr = [])"
| "strings_Contains (c # cs) substr = (HasPrefix (c # cs) substr \<or> strings_Contains cs substr)"

definition reconnectable :: "drv_error \<Rightarrow> bool" where
  "reconnectable err =
     (if strings_Contains (err_Error err) ''conn closed'' then True
      else if pgconn_Timeout err then True
      else if errors_Is_ConnectError err then True
      else if pgconn_SafeToRetry err then True
      else False)"

subsection \<open>The driver and the backoff library\<close>

text \<open>
  A \<open>*pgx.Conn\<close> is known by its identity; a nil pointer is \<open>None\<close>. Contexts, row
  sequences and rows are opaque values of the driver; a \<open>pgconn.CommandTag\<close> is a
  string, whose zero value is the empty one.
\<close>

type_synonym handle = nat
type_synonym ctx = nat
type_synonym rows = nat
type_synonym row = nat
type_synonym command_tag = string

datatype any = AnyNil | AnyInt int | AnyString string

text \<open>
  Backoff policies: the default one, a policy of the caller's, and the two wrappers of
  the library that matter to \<open>backoff.Retry\<close>, \<open>backoff.WithMaxRetries(b, n)\<close> and
  \<open>backoff.WithContext(b, ctx)\<close>.
\<close>

datatype backoff =
    NewExponentialBackOff
  | UserBackOff nat
  | WithMaxRetries backoff nat
  | WithContext backoff ctx

text \<open>
  The calls that leave the package, in order. \<open>EnterReconnect\<close> is a ghost event: it
  marks each entry into \<open>Reconnect\<close>, so that reconnects can be counted.
\<close>

datatype event =
    EnterReconnect
  | CallConnect ctx string
  | CallClose ctx handle
  | CallQuery ctx handle string "any list"
  | CallQueryRow ctx handle string "any list"
  | CallExec ctx handle string "any list"
  | CallPing ctx handle

text \<open>
  What \<open>backoff.Retry\<close> does after an attempt has failed: it waits and runs the
  operation again, or it gives up and returns an error of its choosing (the last
  failure, the context's error, a permanent failure).
\<close>

datatype retry_decision = Again | GiveUp go_error

record env =
  pgx_Connect :: "event list \<Rightarrow> ctx \<Rightarrow> string \<Rightarrow> drv_error + handle"
  conn_Close :: "event list \<Rightarrow> ctx \<Rightarrow> handle \<Rightarrow> drv_error option"
  conn_IsClosed :: "event list \<Rightarrow> handle \<Rightarrow> bool"
  conn_Query ::
    "event list \<Rightarrow> ctx \<Rightarrow> handle \<Rightarrow> string \<Rightarrow> any list \<Rightarrow> rows option \<times> drv_error option"
  conn_QueryRow :: "event list \<Rightarrow> ctx \<Rightarrow> handle \<Rightarrow> string \<Rightarrow> any list \<Rightarrow> row"
  conn_Exec ::
    "event list \<Rightarrow> ctx \<Rightarrow> handle \<Rightarrow> string \<Rightarrow> any list \<Rightarrow> command_tag \<times> drv_error option"
  conn_Ping :: "event list \<Rightarrow> ctx \<Rightarrow> handle \<Rightarrow> drv_error option"
  backoff_Retry_next :: "event list \<Rightarrow> backoff \<Rightarrow> ctx \<Rightarrow> drv_error \<Rightarrow> retry_decision"

subsection \<open>The wrapper and its state\<close>

record ReConn =
  ConnString :: string
  Conn :: "handle option"
  Backoff :: "backoff option"

record world =
  rc :: ReConn
  trace :: "event list"

text \<open>
  A call returns, or panics on a method call through a nil \<open>*pgx.Conn\<close>, or does not
  return within the attempts allowed to the retry loop.
\<close>

datatype 'a result = Return 'a | Panic | Diverge

definition call :: "event \<Rightarrow> world \<Rightarrow> world" where
  "call ev w = w\<lparr>trace := trace w @ [ev]\<rparr>"

definition set_Conn :: "handle option \<Rightarrow> world \<Rightarrow> world" where
  "set_Conn h w = w\<lparr>rc := (rc w)\<lparr>Conn := h\<rparr>\<rparr>"

definition set_Backoff :: "backoff option \<Rightarrow> world \<Rightarrow> world" where
  "set_Backoff b w = w\<lparr>rc := (rc w)\<lparr>Backoff := b\<rparr>\<rparr>"

text \<open>
  \<open>backoff.Retry(op, c.Backoff)\<close> with the closure of \<open>Reconnect\<close> as \<open>op\<close>
  (lines 84 to 91). Each attempt calls \<open>pgx.Connect\<close>; a success stores the handle and
  ends the loop with nil. After a failed attempt the library decides, through
  \<open>backoff_Retry_next\<close>, whether the operation runs again or the loop ends, and with
  which error: of the library this assumes only that it returns nil exactly when the
  operation has returned nil. The second argument bounds the number of attempts: a loop
  that has not ended within them is \<open>Diverge\<close>.
\<close>

fun Retry :: "env \<Rightarrow> nat \<Rightarrow> ctx \<Rightarrow> backoff \<Rightarrow> world \<Rightarrow> (go_error option \<times> world) result" where
  "Retry E 0 ctx bo w = Diverge"
| "Retry E (Suc n) ctx bo w =
     (let w1 = call (CallConnect ctx (ConnString (rc w))) w in
      case pgx_Connect E (trace w) ctx (ConnString (rc w)) of
        Inr conn \<Rightarrow> Return (None, set_Conn (Some conn) w1)
      | Inl err \<Rightarrow>
          (case backoff_Retry_next E (trace w1) bo ctx err of
             Again \<Rightarrow> Retry E n ctx bo w1
           | GiveUp e \<Rightarrow> Return (Some e, w1)))"

definition Reconnect :: "env \<Rightarrow> nat \<Rightarrow> ctx \<Rightarrow> world \<Rightarrow> (go_error option \<times> world) result" where
  "Reconnect E fuel ctx w0 =
     (let w = call EnterReconnect w0;
          w1 = (case Conn (rc w) of
                  Some h \<Rightarrow> set_Conn None (call (CallClose ctx h) w)
                | None \<Rightarrow> w)
      in
      if ConnString (rc w1) = [] then Return (Some ErrNoConnString, w1)
      else
        let w2 = (if Backoff (rc w1) = None then set_Backoff (Some NewExponentialBackOff) w1
                  else w1)
        in
        case Retry E fuel ctx (the (Backoff (rc w2))) w2 of
          Return (None, w3) \<Rightarrow> Return (None, w3)
        | Return (Some err, w3) \<Rightarrow>
            (case errors_As_Permanent err of
               Some pe_Err \<Rightarrow> Return (pe_Err, w3)
             | None \<Rightarrow> Return (None, w3))
        | Panic \<Rightarrow> Panic
        | Diverge \<Rightarrow> Diverge)"

definition Connect ::
  "env \<Rightarrow> nat \<Rightarrow> ctx \<Rightarrow> string \<Rightarrow> backoff option \<Rightarrow> event list
     \<Rightarrow> ((ReConn option \<times> go_error option) \<times> event list) result" where
  "Connect E fuel ctx connString bo tr =
     (if connString = [] then Return ((None, Some ErrNoConnString), tr)
      else
        case Reconnect E fuel ctx
               \<lparr>rc = \<lparr>ConnString = connString, Conn = None, Backoff = bo\<rparr>, trace = tr\<rparr> of
          Return (err, w) \<Rightarrow> Return ((Some (rc w), err), trace w)
        | Panic \<Rightarrow> Panic
        | Diverge \<Rightarrow> Diverge)"

definition checkConn :: "env \<Rightarrow> nat \<Rightarrow> ctx \<Rightarrow> world \<Rightarrow> (go_error option \<times> world) result" where
  "checkConn E fuel ctx w =
     (case Conn (rc w) of
        Some h \<Rightarrow> if \<not> conn_IsClosed E (trace w) h then Return (None, w)
                  else Reconnect E fuel ctx w
      | None \<Rightarrow> Reconnect E fuel ctx w)"

definition Query ::
  "env \<Rightarrow> nat \<Rightarrow> ctx \<Rightarrow> string \<Rightarrow> any list \<Rightarrow> world
     \<Rightarrow> ((rows option \<times> go_error option) \<times> world) result" where
  "Query E fuel ctx sql args w =
     (case checkConn E fuel ctx w of
        Return (Some err, w1) \<Rightarrow> Return ((None, Some err), w1)
      | Return (None, w1) \<Rightarrow>
          (case Conn (rc w1) of
             None \<Rightarrow> Panic
           | Some h \<Rightarrow>
               (let (rs, err) = conn_Query E (trace w1) ctx h sql args;
                    w2 = call (CallQuery ctx h sql args) w1
                in
                case err of
                  None \<Rightarrow> Return ((rs, None), w2)
                | Some e \<Rightarrow>
                    if reconnectable e then
                      (case Reconnect E fuel ctx w2 of
                         Return (Some reconnectErr, w3) \<Rightarrow>
                           Return ((None, Some (Errorf3 ErrReconnect reconnectErr (Driver e))), w3)
                       | Return (None, w3) \<Rightarrow>
                           (case Conn (rc w3) of
                              None \<Rightarrow> Panic
                            | Some h' \<Rightarrow>
                                (let (rs', err') = conn_Query E (trace w3) ctx h' sql args in
                                 Return ((rs', map_option Driver err'),
                                         call (CallQuery ctx h' sql args) w3)))
                       | Panic \<Rightarrow> Panic
                       | Diverge \<Rightarrow> Diverge)
                    else Return ((rs, Some (Driver e)), w2)))
      | Panic \<Rightarrow> Panic
      | Diverge \<Rightarrow> Diverge)"

definition QueryRow ::
  "env \<Rightarrow> nat \<Rightarrow> ctx \<Rightarrow> string \<Rightarrow> any list \<Rightarrow> world
     \<Rightarrow> ((row option \<times> go_error option) \<times> world) result" where
  "QueryRow E fuel ctx sql args w =
     (case checkConn E fuel ctx w of
        Return (Some err, w1) \<Rightarrow> Return ((None, Some err), w1)
      | Return (None, w1) \<Rightarrow>
          (case Conn (rc w1) of
             None \<Rightarrow> Panic
           | Some h \<Rightarrow>
               Return ((Some (conn_QueryRow E (trace w1) ctx h sql args), None),
                       call (CallQueryRow ctx h sql args) w1))
      | Panic \<Rightarrow> Panic
      | Diverge \<Rightarrow> Diverge)"

definition Exec ::
  "env \<Rightarrow> nat \<Rightarrow> ctx \<Rightarrow> string \<Rightarrow> any list \<Rightarrow> world
     \<Rightarrow> ((command_tag \<times> go_error option) \<times> world) result" where
  "Exec E fuel ctx sql args w =
     (case checkConn E fuel ctx w of
        Return (Some err, w1) \<Rightarrow> Return (([], Some err), w1)
      | Return (None, w1) \<Rightarrow>
          (case Conn (rc w1) of
             None \<Rightarrow> Panic
           | Some h \<Rightarrow>
               (let (tag, err) = conn_Exec E (trace w1) ctx h sql args;
                    w2 = call (CallExec ctx h sql args) w1
                in
                case err of
                  None \<Rightarrow> Return ((tag, None), w2)
                | Some e \<Rightarrow>
                    if reconnectable e then
                      (case Reconnect E fuel ctx w2 of
                         Return (Some reconnectErr, w3) \<Rightarrow>
                           Return (([], Some (Errorf3 ErrReconnect reconnectErr (Driver e))), w3)
                       | Return (None, w3) \<Rightarrow>
                           (case Conn (rc w3) of
                              None \<Rightarrow> Panic
                            | Some h' \<Rightarrow>
                                (let (tag', err') = conn_Exec E (trace w3) ctx h' sql args in
                                 Return ((tag', map_option Driver err'),
                                         call (CallExec ctx h' sql args) w3)))
                       | Panic \<Rightarrow> Panic
                       | Diverge \<Rightarrow> Diverge)
                    else Return ((tag, Some (Driver e)), w2)))
      | Panic \<Rightarrow> Panic
      | Diverge \<Rightarrow> Diverge)"

definition Ping :: "env \<Rightarrow> nat \<Rightarrow> ctx \<Rightarrow> world \<Rightarrow> (go_error option \<times> world) result" where
  "Ping E fuel ctx w =
     (case checkConn E fuel ctx w of
        Return (Some err, w1) \<Rightarrow> Return (Some err, w1)
      | Return (None, w1) \<Rightarrow>
          (case Conn (rc w1) of
             None \<Rightarrow> Panic
           | Some h \<Rightarrow>
               (let err = conn_Ping E (trace w1) ctx h;
                    w2 = call (CallPing ctx h) w1
                in
                case err of
                  None \<Rightarrow> Return (None, w2)
                | Some e \<Rightarrow>
                    if reconnectable e then
                      (case Reconnect E fuel ctx w2 of
                         Return (Some reconnectErr, w3) \<Rightarrow>
                           Return (Some (Errorf3 ErrReconnect reconnectErr (Driver e)), w3)
                       | Return (None, w3) \<Rightarrow>
                           (case Conn (rc w3) of
                              None \<Rightarrow> Panic
                            | Some h' \<Rightarrow>
                                Return (map_option Driver (conn_Ping E (trace w3) ctx h'),
                                        call (CallPing ctx h') w3))
                       | Panic \<Rightarrow> Panic
                       | Diverge \<Rightarrow> Diverge)
                    else Return (Some (Driver e), w2)))
      | Panic \<Rightarrow> Panic
      | Diverge \<Rightarrow> Diverge)"

definition Close :: "env \<Rightarrow> ctx \<Rightarrow> world \<Rightarrow> go_error option \<times> world" where
  "Close E ctx w =
     (case Conn (rc w) of
        None \<Rightarrow> (None, w)
      | Some h \<Rightarrow>
          if conn_IsClosed E (trace w) h then (None, w)
          else
            (let err = conn_Close E (trace w) ctx h in
             (map_option Driver err, set_Conn None (call (CallClose ctx h) w))))"

text \<open>Counting the events of one kind in a trace.\<close>

definition closes :: "event list \<Rightarrow> nat" where
  "closes tr = length (filter (\<lambda>ev. case ev of CallClose _ _ \<Rightarrow> True | _ \<Rightarrow> False) tr)"

definition reconnects :: "event list \<Rightarrow> nat" where
  "reconnects tr = length (filter (\<lambda>ev. ev = EnterReconnect) tr)"

definition driver_calls :: "event list \<Rightarrow> event list" where
  "driver_calls tr = filter (\<lambda>ev. ev \<noteq> EnterReconnect) tr"

text \<open>
  The state in which \<open>Reconnect\<close> reaches \<open>backoff.Retry\<close> when the target is not
  empty: the old handle closed and cleared, a missing policy replaced by the default.
\<close>

definition retry_start :: "ctx \<Rightarrow> world \<Rightarrow> world" where
  "retry_start c w0 =
     (let w = call EnterReconnect w0;
          w1 = (case Conn (rc w) of
                  Some h \<Rightarrow> set_Conn None (call (CallClose c h) w)
                | None \<Rightarrow> w)
      in if Backoff (rc w1) = None then set_Backoff (Some NewExponentialBackOff) w1 else w1)"

definition retry_policy :: "world \<Rightarrow> backoff" where
  "retry_policy w0 = (case Backoff (rc w0) of None \<Rightarrow> NewExponentialBackOff | Some b \<Rightarrow> b)"

subsection \<open>The retry loop of backoff v4.3.0\<close>

text \<open>
  The version of the backoff library that go.mod requires decides as follows after a
  failed attempt. (It first tests the failure for \<open>*backoff.PermanentError\<close>; the
  closure of \<open>Reconnect\<close> returns the error of \<open>pgx.Connect\<close> as it is, which is none,
  so that test fails.) It asks the policy for the next interval. When the policy stops,
  the loop ends with the error of the policy's context if that context is done, and else
  with the failure of the attempt. Otherwise it waits, and the wait ends the loop with
  the error of the policy's context if that context is done before the interval has
  passed. The policy's context is the one given to \<open>backoff.WithContext\<close>, also under
  \<open>backoff.WithMaxRetries\<close>; any other policy has the background context, which is
  never done. The context that the caller passes to \<open>Reconnect\<close> reaches
  \<open>pgx.Connect\<close> only: the loop does not look at it.
\<close>

datatype ctx_state = Live | Canceled | DeadlineExceeded

fun ctx_Err :: "ctx_state \<Rightarrow> go_error option" where
  "ctx_Err Live = None"
| "ctx_Err Canceled = Some ContextCanceled"
| "ctx_Err DeadlineExceeded = Some ContextDeadlineExceeded"

fun getContext :: "backoff \<Rightarrow> ctx option" where
  "getContext (WithContext b c) = Some c"
| "getContext (WithMaxRetries b n) = getContext b"
| "getContext _ = None"

text \<open>
  What the library sees after the calls made so far: whether the policy stops, and the
  state a context has reached when the library looks at it (at the test after a stop,
  or by the end of the wait).
\<close>

record lib =
  NextBackOff_Stop :: "event list \<Rightarrow> backoff \<Rightarrow> bool"
  ctx_at :: "event list \<Rightarrow> ctx \<Rightarrow> ctx_state"

definition backoff_v4 :: "lib \<Rightarrow> event list \<Rightarrow> backoff \<Rightarrow> ctx \<Rightarrow> drv_error \<Rightarrow> retry_decision" where
  "backoff_v4 L tr bo c err =
     (let cerr = (case getContext bo of
                    None \<Rightarrow> None
                  | Some bc \<Rightarrow> ctx_Err (ctx_at L tr bc))
      in
      if NextBackOff_Stop L tr bo then
        (case cerr of Some e \<Rightarrow> GiveUp e | None \<Rightarrow> GiveUp (Driver err))
      else
        (case cerr of Some e \<Rightarrow> GiveUp e | None \<Rightarrow> Again))"

text \<open>
  The driver honours a context: \<open>pgx.Connect\<close> with a context that is done fails, and a
  context that is done stays done.
\<close>

definition driver_honours_ctx :: "env \<Rightarrow> lib \<Rightarrow> bool" where
  "driver_honours_ctx E L =
     ((\<forall>tr c cs. ctx_at L tr c \<noteq> Live \<longrightarrow> (\<exists>e. pgx_Connect E tr c cs = Inl e))
      \<and> (\<forall>tr ev c. ctx_at L tr c \<noteq> Live \<longrightarrow> ctx_at L (tr @ [ev]) c \<noteq> Live))"

text \<open>
  The caller's context is cancelled while \<open>Reconnect\<close> waits in the retry loop: along
  the attempts of the loop there is a failed attempt after which the policy does not
  stop and by the end of whose wait the context passed to \<open>Reconnect\<close> is done.
\<close>

fun cancelled_while_waiting :: "env \<Rightarrow> lib \<Rightarrow> nat \<Rightarrow> ctx \<Rightarrow> backoff \<Rightarrow> world \<Rightarrow> bool" where
  "cancelled_while_waiting E L 0 c bo w = False"
| "cancelled_while_waiting E L (Suc n) c bo w =
     (case pgx_Connect E (trace w) c (ConnString (rc w)) of
        Inr conn \<Rightarrow> False
      | Inl err \<Rightarrow>
          (let w1 = call (CallConnect c (ConnString (rc w))) w in
           if NextBackOff_Stop L (trace w1) bo then False
           else if ctx_at L (trace w1) c \<noteq> Live then True
           else
             (case backoff_v4 L (trace w1) bo c err of
                Again \<Rightarrow> cancelled_while_waiting E L n c bo w1
              | GiveUp e \<Rightarrow> False)))"

subsection \<open>Concrete environments\<close>

definition connection_refused :: drv_error where
  "connection_refused =
     \<lparr>err_Error = ''failed to connect: dial error: connection refused'',
      pgconn_Timeout = False, errors_Is_ConnectError = False, pgconn_SafeToRetry = False,
      wraps_ConnectError = True\<rparr>"

definition connect_cancelled :: drv_error where
  "connect_cancelled =
     \<lparr>err_Error = ''failed to connect: context canceled'',
      pgconn_Timeout = False, errors_Is_ConnectError = False, pgconn_SafeToRetry = False,
      wraps_ConnectError = True\<rparr>"

definition conn_closed :: drv_error where
  "conn_closed =
     \<lparr>err_Error = ''conn closed'',
      pgconn_Timeout = False, errors_Is_ConnectError = False, pgconn_SafeToRetry = False,
      wraps_ConnectError = False\<rparr>"

definition syntax_error :: drv_error where
  "syntax_error =
     \<lparr>err_Error = ''ERROR: syntax error at or near SELEC (SQLSTATE 42601)'',
      pgconn_Timeout = False, errors_Is_ConnectError = False, pgconn_SafeToRetry = False,
      wraps_ConnectError = False\<rparr>"

text \<open>
  A server that is down: every connection attempt is refused and the policy stops after
  the first failure, so that \<open>backoff.Retry\<close> returns that failure; every operation on
  a handle reports a closed connection.
\<close>

definition dead_server :: env where
  "dead_server =
     \<lparr>pgx_Connect = (\<lambda>tr c cs. Inl connection_refused),
      conn_Close = (\<lambda>tr c h. None),
      conn_IsClosed = (\<lambda>tr h. False),
      conn_Query = (\<lambda>tr c h sql args. (None, Some conn_closed)),
      conn_QueryRow = (\<lambda>tr c h sql args. 0),
      conn_Exec = (\<lambda>tr c h sql args. ([], Some conn_closed)),
      conn_Ping = (\<lambda>tr c h. Some conn_closed),
      backoff_Retry_next = (\<lambda>tr bo c err. GiveUp (Driver err))\<rparr>"

text \<open>In \<open>dead_server\<close> the library sees a policy that stops at once and no context done.\<close>

definition stops_at_once :: lib where
  "stops_at_once = \<lparr>NextBackOff_Stop = (\<lambda>tr bo. True), ctx_at = (\<lambda>tr c. Live)\<rparr>"

text \<open>
  Context 0 is cancelled during the first wait of the retry loop (the trace then holds
  the entry into \<open>Reconnect\<close> and the first attempt); the policy stops after the second
  failed attempt.
\<close>

definition cancelling :: lib where
  "cancelling =
     \<lparr>NextBackOff_Stop = (\<lambda>tr bo. 3 \<le> length tr),
      ctx_at = (\<lambda>tr c. if c = 0 \<and> 2 \<le> length tr then Canceled else Live)\<rparr>"

text \<open>
  The server that is down, with that cancellation: an attempt made with the cancelled
  context fails with the cancellation, the others are refused.
\<close>

definition cancelled_wait :: env where
  "cancelled_wait =
     dead_server
       \<lparr>pgx_Connect :=
          (\<lambda>tr c cs. if ctx_at cancelling tr c \<noteq> Live then Inl connect_cancelled
                      else Inl connection_refused),
        backoff_Retry_next := backoff_v4 cancelling\<rparr>"

text \<open>
  A server that accepts the third connection attempt; handles are numbered by the
  length of the trace at the attempt. Statements fail with a syntax error.
\<close>

definition live_server :: env where
  "live_server =
     \<lparr>pgx_Connect = (\<lambda>tr c cs. if length tr < 3 then Inl connection_refused else Inr (length tr)),
      conn_Close = (\<lambda>tr c h. Some conn_closed),
      conn_IsClosed = (\<lambda>tr h. False),
      conn_Query = (\<lambda>tr c h sql args. (Some 0, Some syntax_error)),
      conn_QueryRow = (\<lambda>tr c h sql args. 42),
      conn_Exec = (\<lambda>tr c h sql args. (''SELECT 0'', Some syntax_error)),
      conn_Ping = (\<lambda>tr c h. Some syntax_error),
      backoff_Retry_next = (\<lambda>tr bo c err. Again)\<rparr>"

text \<open>
  A server whose handle 1 has lost its connection: operations on it report a closed
  connection, a new connection gets handle 2 and works.
\<close>

definition restarted_server :: env where
  "restarted_server =
     \<lparr>pgx_Connect = (\<lambda>tr c cs. Inr 2),
      conn_Close = (\<lambda>tr c h. Some conn_closed),
      conn_IsClosed = (\<lambda>tr h. False),
      conn_Query = (\<lambda>tr c h sql args. if h = 1 then (None, Some conn_closed) else (Some 7, None)),
      conn_QueryRow = (\<lambda>tr c h sql args. 42),
      conn_Exec = (\<lambda>tr c h sql args. if h = 1 then ([], Some conn_closed) else (''UPDATE 3'', None)),
      conn_Ping = (\<lambda>tr c h. if h = 1 then Some conn_closed else None),
      backoff_Retry_next = (\<lambda>tr bo c err. Again)\<rparr>"

definition fresh :: "string \<Rightarrow> world" where
  "fresh target = \<lparr>rc = \<lparr>ConnString = target, Conn = None, Backoff = None\<rparr>, trace = []\<rparr>"

definition holding :: "string \<Rightarrow> handle \<Rightarrow> world" where
  "holding target h = \<lparr>rc = \<lparr>ConnString = target, Conn = Some h, Backoff = None\<rparr>, trace = []\<rparr>"

text \<open>A wrapper without a handle whose policy is bound to context 0.\<close>

definition bound_to_ctx :: "string \<Rightarrow> world" where
  "bound_to_ctx target =
     \<lparr>rc = \<lparr>ConnString = target, Conn = None,
            Backoff = Some (WithContext (UserBackOff 0) 0)\<rparr>,
      trace = []\<rparr>"

text \<open>
  A wrapper without a handle whose policy allows one retry
  (\<open>backoff.WithMaxRetries(b, 1)\<close>) and is bound to no context.
\<close>

definition one_retry :: "string \<Rightarrow> world" where
  "one_retry target =
     \<lparr>rc = \<lparr>ConnString = target, Conn = None,
            Backoff = Some (WithMaxRetries (UserBackOff 0) 1)\<rparr>,
      trace = []\<rparr>"

text \<open>The state in which a first reconnect to "db" gave up after one refused attempt.\<close>

definition gave_up :: world where
  "gave_up =
     \<lparr>rc = \<lparr>ConnString = ''db'', Conn = None, Backoff = Some NewExponentialBackOff\<rparr>,
      trace = [EnterReconnect, CallConnect 0 ''db'']\<rparr>"

text \<open>
  The states in which a first reconnect to "db" ended with the cancellation of context
  0: at once under the policy bound to it, after a second attempt under the policy
  that allows one retry.
\<close>

definition gave_up_bound :: world where
  "gave_up_bound =
     \<lparr>rc = \<lparr>ConnString = ''db'', Conn = None,
            Backoff = Some (WithContext (UserBackOff 0) 0)\<rparr>,
      trace = [EnterReconnect, CallConnect 0 ''db'']\<rparr>"

definition gave_up_late :: world where
  "gave_up_late =
     \<lparr>rc = \<lparr>ConnString = ''db'', Conn = None,
            Backoff = Some (WithMaxRetries (UserBackOff 0) 1)\<rparr>,
      trace = [EnterReconnect, CallConnect 0 ''db'', CallConnect 0 ''db'']\<rparr>"

text \<open>The state after a reconnect without a target and without a handle.\<close>

definition no_target :: world where
  "no_target =
     \<lparr>rc = \<lparr>ConnString = [], Conn = None, Backoff = None\<rparr>, trace = [EnterReconnect]\<rparr>"

section \<open>Properties\<close>

subsection \<open>The classifier\<close>

lemma HasPrefix_iff: "HasPrefix s p \<longleftrightarrow> (\<exists>post. s = p @ post)"
  by (induction s p rule: HasPrefix.induct) auto

lemma strings_Contains_iff:
  "strings_Contains s sub \<longleftrightarrow> (\<exists>pre post. s = pre @ sub @ post)"
proof (induction s)
  case Nil
  show ?case by auto
next
  case (Cons c cs)
  show ?case
  proof
    assume "strings_Contains (c # cs) sub"
    then consider "HasPrefix (c # cs) sub" | "strings_Contains cs sub" by auto
    then show "\<exists>pre post. c # cs = pre @ sub @ post"
    proof cases
      case 1
      then obtain post where "c # cs = sub @ post" by (auto simp: HasPrefix_iff)
      then have "c # cs = [] @ sub @ post" by simp
      then show ?thesis by blast
    next
      case 2
      then obtain pre post where "cs = pre @ sub @ post" using Cons.IH by auto
      then have "c # cs = (c # pre) @ sub @ post" by simp
      then show ?thesis by blast
    qed
  next
    assume "\<exists>pre post. c # cs = pre @ sub @ post"
    then obtain pre post where eq: "c # cs = pre @ sub @ post" by blast
    show "strings_Contains (c # cs) sub"
    proof (cases pre)
      case Nil
      with eq have "HasPrefix (c # cs) sub" by (auto simp: HasPrefix_iff)
      then show ?thesis by simp
    next
      case (Cons p pre')
      with eq have "cs = pre' @ sub @ post" by simp
      then have "strings_Contains cs sub" using Cons.IH by blast
      then show ?thesis by simp
    qed
  qed
qed

text \<open>
  What the code computes: the classifier reads the error alone and answers true exactly
  when the message contains "conn closed" or one of the three tests of lines 136 to 142
  succeeds.
\<close>

lemma reconnectable_iff:
  "reconnectable err =
     ((\<exists>pre post. err_Error err = pre @ ''conn closed'' @ post)
      \<or> pgconn_Timeout err
      \<or> errors_Is_ConnectError err
      \<or> pgconn_SafeToRetry err)"
  unfolding reconnectable_def strings_Contains_iff by auto

text \<open>
  C3 at a connection-establishment failure of the driver. The error of a refused
  connection is a \<open>*pgconn.ConnectError\<close>; its message does not contain "conn closed",
  it is no timeout and not safe to retry, and the test of line 139 fails on it, as on
  every \<open>*pgconn.ConnectError\<close>. The classifier answers false where the claim's third
  condition holds.
\<close>

theorem reconnectable_misses_ConnectError:
  "wraps_ConnectError connection_refused
   \<and> errors_Is_ConnectError connection_refused = False
   \<and> strings_Contains (err_Error connection_refused) ''conn closed'' = False
   \<and> pgconn_Timeout connection_refused = False
   \<and> pgconn_SafeToRetry connection_refused = False
   \<and> reconnectable connection_refused = False"
  by (simp add: reconnectable_def connection_refused_def)

subsection \<open>The retry loop\<close>

lemmas eval_defs = Reconnect_def retry_start_def retry_policy_def Let_def call_def set_Conn_def
  set_Backoff_def fresh_def holding_def gave_up_def dead_server_def
  cancelled_wait_def cancelling_def stops_at_once_def bound_to_ctx_def one_retry_def backoff_v4_def
  connect_cancelled_def gave_up_bound_def gave_up_late_def no_target_def live_server_def restarted_server_def connection_refused_def
  conn_closed_def syntax_error_def eval_nat_numeral checkConn_def Query_def QueryRow_def
  Exec_def Ping_def Close_def Connect_def reconnectable_def driver_calls_def closes_def
  reconnects_def

lemma Retry_failure_rc:
  "Retry E n c bo w = Return (Some e, w') \<Longrightarrow> rc w' = rc w"
  by (induction n arbitrary: w)
     (auto simp: Let_def call_def set_Conn_def split: sum.splits retry_decision.splits)

lemma Retry_success_Conn:
  "Retry E n c bo w = Return (None, w') \<Longrightarrow> \<exists>h. Conn (rc w') = Some h"
  by (induction n arbitrary: w)
     (auto simp: Let_def call_def set_Conn_def split: sum.splits retry_decision.splits)

lemma Retry_no_Panic: "Retry E n c bo w \<noteq> Panic"
  by (induction n arbitrary: w) (auto simp: Let_def split: sum.splits retry_decision.splits)

lemma Retry_more_fuel:
  "Retry E n c bo w = Return r \<Longrightarrow> Retry E (n + k) c bo w = Return r"
  by (induction n arbitrary: w)
     (auto simp: Let_def split: sum.splits retry_decision.splits)

subsection \<open>Reconnect\<close>

lemma retry_start_ConnString [simp]: "ConnString (rc (retry_start c w0)) = ConnString (rc w0)"
  by (simp add: retry_start_def Let_def call_def set_Conn_def set_Backoff_def split: option.splits)

lemma retry_start_Conn [simp]: "Conn (rc (retry_start c w0)) = None"
  by (simp add: retry_start_def Let_def call_def set_Conn_def set_Backoff_def split: option.splits)

lemma retry_start_Backoff [simp]: "Backoff (rc (retry_start c w0)) = Some (retry_policy w0)"
  by (simp add: retry_start_def retry_policy_def Let_def call_def set_Conn_def set_Backoff_def
      split: option.splits)

lemma Reconnect_empty:
  "ConnString (rc w0) = [] \<Longrightarrow>
   Reconnect E fuel c w0 =
     Return (Some ErrNoConnString,
       case Conn (rc w0) of
         None \<Rightarrow> call EnterReconnect w0
       | Some h \<Rightarrow> set_Conn None (call (CallClose c h) (call EnterReconnect w0)))"
  by (simp add: Reconnect_def Let_def call_def set_Conn_def split: option.splits)

lemma Reconnect_unfold:
  "ConnString (rc w0) \<noteq> [] \<Longrightarrow>
   Reconnect E fuel c w0 =
     (case Retry E fuel c (retry_policy w0) (retry_start c w0) of
        Return (None, w3) \<Rightarrow> Return (None, w3)
      | Return (Some err, w3) \<Rightarrow>
          (case errors_As_Permanent err of
             Some pe_Err \<Rightarrow> Return (pe_Err, w3)
           | None \<Rightarrow> Return (None, w3))
      | Panic \<Rightarrow> Panic
      | Diverge \<Rightarrow> Diverge)"
  by (simp add: Reconnect_def retry_start_def retry_policy_def Let_def call_def set_Conn_def
      set_Backoff_def split: option.splits)

lemma Reconnect_no_Panic: "Reconnect E fuel c w0 \<noteq> Panic"
proof (cases "ConnString (rc w0) = []")
  case True
  then show ?thesis by (simp add: Reconnect_empty)
next
  case False
  then show ?thesis
    using Retry_no_Panic [of E fuel c "retry_policy w0" "retry_start c w0"]
    by (auto simp: Reconnect_unfold split: result.splits option.splits prod.splits)
qed

lemma dead_server_gives_up:
  "Retry dead_server 3 0 (retry_policy (fresh ''db'')) (retry_start 0 (fresh ''db''))
     = Return (Some (Driver connection_refused), gave_up)"
  by (simp add: eval_defs)

subsection \<open>Reconnect over the retry loop of backoff v4.3.0\<close>

lemma backoff_v4_GiveUp:
  "backoff_v4 L tr bo c err = GiveUp e \<Longrightarrow>
   e = Driver err \<or> e = ContextCanceled \<or> e = ContextDeadlineExceeded"
  by (cases "getContext bo"; cases "ctx_at L tr (the (getContext bo))")
     (auto simp: backoff_v4_def Let_def split: if_splits)

lemma Retry_v4_failure:
  assumes conf: "backoff_Retry_next E = backoff_v4 L"
  shows "Retry E n c bo w = Return (Some err, w') \<Longrightarrow>
         (\<exists>e. err = Driver e) \<or> err = ContextCanceled \<or> err = ContextDeadlineExceeded"
proof (induction n arbitrary: w)
  case 0
  then show ?case by simp
next
  case (Suc n)
  let ?w1 = "call (CallConnect c (ConnString (rc w))) w"
  from Suc.prems obtain e where e: "pgx_Connect E (trace w) c (ConnString (rc w)) = Inl e"
    by (auto simp: Let_def split: sum.splits)
  show ?case
  proof (cases "backoff_v4 L (trace ?w1) bo c e")
    case Again
    then have "Retry E n c bo ?w1 = Return (Some err, w')"
      using Suc.prems e by (simp add: conf Let_def)
    then show ?thesis by (rule Suc.IH)
  next
    case (GiveUp x)
    then have "x = err" using Suc.prems e by (simp add: conf Let_def)
    then show ?thesis using backoff_v4_GiveUp [OF GiveUp] by blast
  qed
qed

lemma dead_server_v4: "backoff_Retry_next dead_server = backoff_v4 stops_at_once"
  by (auto simp: dead_server_def stops_at_once_def backoff_v4_def fun_eq_iff split: option.splits)

lemma cancelled_wait_v4: "backoff_Retry_next cancelled_wait = backoff_v4 cancelling"
  by (simp add: cancelled_wait_def dead_server_def)

lemma cancelled_wait_bound_gives_up:
  "Retry cancelled_wait 3 0 (retry_policy (bound_to_ctx ''db'')) (retry_start 0 (bound_to_ctx ''db''))
     = Return (Some ContextCanceled, gave_up_bound)"
  by (simp add: eval_defs)

lemma Retry_dead_ctx_fails:
  assumes hon: "driver_honours_ctx E L"
  shows "ctx_at L (trace w) c \<noteq> Live \<Longrightarrow> Retry E n c bo w = Return (r, w') \<Longrightarrow> r \<noteq> None"
proof (induction n arbitrary: w)
  case 0
  then show ?case by simp
next
  case (Suc n)
  let ?w1 = "call (CallConnect c (ConnString (rc w))) w"
  from hon Suc.prems(1) obtain e where e: "pgx_Connect E (trace w) c (ConnString (rc w)) = Inl e"
    unfolding driver_honours_ctx_def by blast
  have dead: "ctx_at L (trace ?w1) c \<noteq> Live"
    using hon Suc.prems(1) unfolding driver_honours_ctx_def call_def by simp
  show ?case
  proof (cases "backoff_Retry_next E (trace ?w1) bo c e")
    case Again
    then have "Retry E n c bo ?w1 = Return (r, w')" using Suc.prems(2) e by (simp add: Let_def)
    then show ?thesis using Suc.IH [OF dead] by simp
  next
    case (GiveUp x)
    then show ?thesis using Suc.prems(2) e by (auto simp: Let_def)
  qed
qed

lemma cancelled_Retry_fails:
  assumes conf: "backoff_Retry_next E = backoff_v4 L"
    and hon: "driver_honours_ctx E L"
  shows "cancelled_while_waiting E L n c bo w \<Longrightarrow> Retry E n c bo w = Return (r, w') \<Longrightarrow> r \<noteq> None"
proof (induction n arbitrary: w)
  case 0
  then show ?case by simp
next
  case (Suc n)
  let ?w1 = "call (CallConnect c (ConnString (rc w))) w"
  from Suc.prems(1) obtain e where e: "pgx_Connect E (trace w) c (ConnString (rc w)) = Inl e"
    by (auto split: sum.splits)
  show ?case
  proof (cases "backoff_v4 L (trace ?w1) bo c e")
    case (GiveUp x)
    then show ?thesis using Suc.prems(2) e by (auto simp: conf Let_def)
  next
    case Again
    then have next_run: "Retry E n c bo ?w1 = Return (r, w')"
      using Suc.prems(2) e by (simp add: conf Let_def)
    show ?thesis
    proof (cases "ctx_at L (trace ?w1) c \<noteq> Live")
      case True
      then show ?thesis using Retry_dead_ctx_fails [OF hon _ next_run] by blast
    next
      case False
      then have "cancelled_while_waiting E L n c bo ?w1"
        using Suc.prems(1) e Again by (auto simp: Let_def split: if_splits)
      then show ?thesis using Suc.IH next_run by blast
    qed
  qed
qed

lemma cancelled_bound_Retry_returns:
  assumes conf: "backoff_Retry_next E = backoff_v4 L"
    and bound: "getContext bo = Some c"
  shows "cancelled_while_waiting E L n c bo w \<Longrightarrow> \<exists>err w'. Retry E n c bo w = Return (Some err, w')"
proof (induction n arbitrary: w)
  case 0
  then show ?case by simp
next
  case (Suc n)
  let ?w1 = "call (CallConnect c (ConnString (rc w))) w"
  from Suc.prems(1) obtain e where e: "pgx_Connect E (trace w) c (ConnString (rc w)) = Inl e"
    by (auto split: sum.splits)
  show ?case
  proof (cases "ctx_at L (trace ?w1) c \<noteq> Live")
    case True
    then obtain x where "ctx_Err (ctx_at L (trace ?w1) c) = Some x"
      by (cases "ctx_at L (trace ?w1) c") auto
    then have "backoff_v4 L (trace ?w1) bo c e = GiveUp x"
      by (simp add: backoff_v4_def bound Let_def)
    then show ?thesis using e by (simp add: conf Let_def)
  next
    case False
    then have again: "backoff_v4 L (trace ?w1) bo c e = Again"
      and rest: "cancelled_while_waiting E L n c bo ?w1"
      using Suc.prems(1) e by (auto simp: Let_def split: if_splits retry_decision.splits)
    from Suc.IH [OF rest] show ?thesis using e again by (simp add: conf Let_def)
  qed
qed

lemma cancelled_wait_honours: "driver_honours_ctx cancelled_wait cancelling"
  by (auto simp: driver_honours_ctx_def cancelled_wait_def dead_server_def cancelling_def)

lemma cancelled_in_first_wait:
  "cancelled_while_waiting cancelled_wait cancelling 3 0
     (retry_policy (bound_to_ctx ''db'')) (retry_start 0 (bound_to_ctx ''db''))"
  "cancelled_while_waiting cancelled_wait cancelling 3 0
     (retry_policy (one_retry ''db'')) (retry_start 0 (one_retry ''db''))"
  by (simp_all add: eval_defs)

text \<open>
  C1. With the retry loop of backoff v4.3.0 and a target that is not empty, a failure
  with which the loop ends is the last failure of an attempt or the error of the
  policy's context. None of them is a \<open>*backoff.PermanentError\<close>: the test of line 96
  fails, and \<open>Reconnect\<close> returns no error, with the handle nil. So no failure of the loop
  reaches the caller, whether the library took it for permanent, the policy was
  exhausted or the context was cancelled.
\<close>

theorem Reconnect_suppresses_failures:
  assumes "backoff_Retry_next E = backoff_v4 L"
    and "ConnString (rc w0) \<noteq> []"
    and "Retry E fuel c (retry_policy w0) (retry_start c w0) = Return (Some err, w')"
  shows "((\<exists>e. err = Driver e) \<or> err = ContextCanceled \<or> err = ContextDeadlineExceeded)
       \<and> errors_As_Permanent err = None
       \<and> Reconnect E fuel c w0 = Return (None, w')
       \<and> Conn (rc w') = None"
proof -
  have kind: "(\<exists>e. err = Driver e) \<or> err = ContextCanceled \<or> err = ContextDeadlineExceeded"
    using Retry_v4_failure [OF assms(1) assms(3)] .
  then have np: "errors_As_Permanent err = None" by auto
  then have "Reconnect E fuel c w0 = Return (None, w')"
    using assms(2,3) by (simp add: Reconnect_unfold)
  moreover have "rc w' = rc (retry_start c w0)" using assms(3) by (rule Retry_failure_rc)
  ultimately show ?thesis using kind np by simp
qed

theorem Reconnect_suppresses_failures_witness:
  "backoff_Retry_next dead_server = backoff_v4 stops_at_once
   \<and> ConnString (rc (fresh ''db'')) \<noteq> []
   \<and> Retry dead_server 3 0 (retry_policy (fresh ''db'')) (retry_start 0 (fresh ''db''))
       = Return (Some (Driver connection_refused), gave_up)
   \<and> Reconnect dead_server 3 0 (fresh ''db'') = Return (None, gave_up)
   \<and> backoff_Retry_next cancelled_wait = backoff_v4 cancelling
   \<and> ConnString (rc (bound_to_ctx ''db'')) \<noteq> []
   \<and> Retry cancelled_wait 3 0 (retry_policy (bound_to_ctx ''db'')) (retry_start 0 (bound_to_ctx ''db''))
       = Return (Some ContextCanceled, gave_up_bound)
   \<and> Reconnect cancelled_wait 3 0 (bound_to_ctx ''db'') = Return (None, gave_up_bound)"
proof -
  have t1: "ConnString (rc (fresh ''db'')) \<noteq> []" by (simp add: fresh_def)
  have t2: "ConnString (rc (bound_to_ctx ''db'')) \<noteq> []" by (simp add: bound_to_ctx_def)
  show ?thesis
    using t1 t2 dead_server_v4 cancelled_wait_v4 dead_server_gives_up cancelled_wait_bound_gives_up
      Reconnect_suppresses_failures [OF dead_server_v4 t1 dead_server_gives_up]
      Reconnect_suppresses_failures [OF cancelled_wait_v4 t2 cancelled_wait_bound_gives_up]
    by simp
qed

lemma cancelled_Reconnect_returns_nil:
  assumes conf: "backoff_Retry_next E = backoff_v4 L"
    and hon: "driver_honours_ctx E L"
    and target: "ConnString (rc w0) \<noteq> []"
    and scen: "cancelled_while_waiting E L fuel c (retry_policy w0) (retry_start c w0)"
  shows "(Reconnect E fuel c w0 = Return (r, w') \<longrightarrow> r = None \<and> Conn (rc w') = None)
       \<and> (getContext (retry_policy w0) = Some c \<longrightarrow>
            (\<exists>w''. Reconnect E fuel c w0 = Return (None, w'') \<and> Conn (rc w'') = None))"
proof (intro conjI impI)
  assume ret: "Reconnect E fuel c w0 = Return (r, w')"
  then obtain r0 where run: "Retry E fuel c (retry_policy w0) (retry_start c w0) = Return (r0, w')"
    using target by (auto simp: Reconnect_unfold split: result.splits option.splits prod.splits)
  then obtain err where r0: "r0 = Some err"
    using cancelled_Retry_fails [OF conf hon scen run] by auto
  have kind: "(\<exists>e. err = Driver e) \<or> err = ContextCanceled \<or> err = ContextDeadlineExceeded"
    using Retry_v4_failure [OF conf] run r0 by blast
  then have "errors_As_Permanent err = None" by auto
  then have "Reconnect E fuel c w0 = Return (None, w')"
    using target run r0 by (simp add: Reconnect_unfold)
  then show "r = None" using ret by simp
  have "rc w' = rc (retry_start c w0)" using run r0 Retry_failure_rc by blast
  then show "Conn (rc w') = None" by simp
next
  assume bound: "getContext (retry_policy w0) = Some c"
  obtain err w'' where run: "Retry E fuel c (retry_policy w0) (retry_start c w0) = Return (Some err, w'')"
    using cancelled_bound_Retry_returns [OF conf bound scen] by blast
  have kind: "(\<exists>e. err = Driver e) \<or> err = ContextCanceled \<or> err = ContextDeadlineExceeded"
    using Retry_v4_failure [OF conf run] .
  then have "errors_As_Permanent err = None" by auto
  then have "Reconnect E fuel c w0 = Return (None, w'')"
    using target run by (simp add: Reconnect_unfold)
  moreover have "rc w'' = rc (retry_start c w0)" using run by (rule Retry_failure_rc)
  ultimately show "\<exists>w''. Reconnect E fuel c w0 = Return (None, w'') \<and> Conn (rc w'') = None"
    by simp
qed

lemma backoff_v4_unbound:
  "getContext bo = None \<Longrightarrow>
   backoff_v4 L tr bo c err = backoff_v4 (L\<lparr>ctx_at := (\<lambda>tr c. Live)\<rparr>) tr bo c err"
  by (simp add: backoff_v4_def)

lemma Retry_unbound:
  assumes conf: "backoff_Retry_next E = backoff_v4 L"
    and unbound: "getContext bo = None"
  shows "Retry E n c bo w =
         Retry (E\<lparr>backoff_Retry_next := backoff_v4 (L\<lparr>ctx_at := (\<lambda>tr c. Live)\<rparr>)\<rparr>) n c bo w"
proof (induction n arbitrary: w)
  case 0
  show ?case by simp
next
  case (Suc n)
  show ?case
    using Suc.IH backoff_v4_unbound [OF unbound, of L]
    by (simp add: conf Let_def split: sum.splits retry_decision.splits)
qed

text \<open>
  C5, as the code has it. The context passed to \<open>Reconnect\<close> is cancelled while the retry
  loop waits, the target is not empty and the driver honours the context. Then
  \<open>Reconnect\<close> does not report the cancellation: whenever it returns, it returns no
  error and the handle is nil. When the policy is bound to that context, the loop ends
  with the cancellation and \<open>Reconnect\<close> does return. When the policy has no context,
  the default one included, the loop does not see the cancellation: \<open>Reconnect\<close> does
  what it does when the library finds no context done, so the attempts go on until the
  policy stops.
\<close>

theorem cancellation_suppressed:
  assumes conf: "backoff_Retry_next E = backoff_v4 L"
    and hon: "driver_honours_ctx E L"
    and target: "ConnString (rc w0) \<noteq> []"
    and scen: "cancelled_while_waiting E L fuel c (retry_policy w0) (retry_start c w0)"
  shows "(Reconnect E fuel c w0 = Return (r, w') \<longrightarrow> r = None \<and> Conn (rc w') = None)
       \<and> (getContext (retry_policy w0) = Some c \<longrightarrow>
            (\<exists>w''. Reconnect E fuel c w0 = Return (None, w'') \<and> Conn (rc w'') = None))
       \<and> (getContext (retry_policy w0) = None \<longrightarrow>
            Reconnect E fuel c w0 =
              Reconnect (E\<lparr>backoff_Retry_next := backoff_v4 (L\<lparr>ctx_at := (\<lambda>tr c. Live)\<rparr>)\<rparr>)
                fuel c w0)"
proof -
  have "getContext (retry_policy w0) = None \<Longrightarrow>
        Reconnect E fuel c w0 =
          Reconnect (E\<lparr>backoff_Retry_next := backoff_v4 (L\<lparr>ctx_at := (\<lambda>tr c. Live)\<rparr>)\<rparr>)
            fuel c w0"
    using Retry_unbound [OF conf, of "retry_policy w0" fuel c "retry_start c w0"] target
    by (simp add: Reconnect_unfold)
  then show ?thesis
    using cancelled_Reconnect_returns_nil [OF conf hon target scen, of r w'] by blast
qed

theorem cancellation_suppressed_witness:
  "backoff_Retry_next cancelled_wait = backoff_v4 cancelling
   \<and> driver_honours_ctx cancelled_wait cancelling
   \<and> cancelled_while_waiting cancelled_wait cancelling 3 0
       (retry_policy (bound_to_ctx ''db'')) (retry_start 0 (bound_to_ctx ''db''))
   \<and> getContext (retry_policy (bound_to_ctx ''db'')) = Some 0
   \<and> Reconnect cancelled_wait 3 0 (bound_to_ctx ''db'') = Return (None, gave_up_bound)
   \<and> Conn (rc gave_up_bound) = None
   \<and> cancelled_while_waiting cancelled_wait cancelling 3 0
       (retry_policy (one_retry ''db'')) (retry_start 0 (one_retry ''db''))
   \<and> getContext (retry_policy (one_retry ''db'')) = None
   \<and> Reconnect cancelled_wait 3 0 (one_retry ''db'') = Return (None, gave_up_late)
   \<and> Conn (rc gave_up_late) = None"
proof -
  have t1: "ConnString (rc (one_retry ''db'')) \<noteq> []" by (simp add: one_retry_def)
  have t2: "ConnString (rc (bound_to_ctx ''db'')) \<noteq> []" by (simp add: bound_to_ctx_def)
  have late: "Reconnect cancelled_wait 3 0 (one_retry ''db'') = Return (None, gave_up_late)"
    by (simp add: eval_defs)
  have bound: "getContext (retry_policy (bound_to_ctx ''db'')) = Some 0"
    and unbound: "getContext (retry_policy (one_retry ''db'')) = None"
    by (simp_all add: retry_policy_def bound_to_ctx_def one_retry_def)
  have at_once: "Reconnect cancelled_wait 3 0 (bound_to_ctx ''db'') = Return (None, gave_up_bound)"
    by (simp add: eval_defs)
  have "Conn (rc gave_up_bound) = None"
    using cancellation_suppressed [OF cancelled_wait_v4 cancelled_wait_honours t2
        cancelled_in_first_wait(1), of None gave_up_bound] at_once
    by blast
  moreover have "Conn (rc gave_up_late) = None"
    using cancellation_suppressed [OF cancelled_wait_v4 cancelled_wait_honours t1
        cancelled_in_first_wait(2), of None gave_up_late] late
    by blast
  ultimately show ?thesis
    using cancelled_wait_v4 cancelled_wait_honours cancelled_in_first_wait bound unbound late at_once
    by blast
qed

text \<open>
  C5 as the spec states it fails: the policy is bound to the caller's context, the
  context is cancelled during the first wait, the retry loop ends with the cancellation,
  and \<open>Reconnect\<close> returns nil instead of it.
\<close>

theorem Reconnect_cancellation_not_reported:
  "cancelled_while_waiting cancelled_wait cancelling 3 0
     (retry_policy (bound_to_ctx ''db'')) (retry_start 0 (bound_to_ctx ''db''))
   \<and> Retry cancelled_wait 3 0 (retry_policy (bound_to_ctx ''db'')) (retry_start 0 (bound_to_ctx ''db''))
       = Return (Some ContextCanceled, gave_up_bound)
   \<and> Reconnect cancelled_wait 3 0 (bound_to_ctx ''db'') = Return (None, gave_up_bound)"
  by (simp add: eval_defs)

text \<open>
  C9. An error returned by \<open>Reconnect\<close> is \<open>ErrNoConnString\<close>, for an empty target, or
  the error inside a permanent failure with which the retry loop ended; when the loop
  ended with an error that is no permanent failure, \<open>Reconnect\<close> returns nil.
\<close>

theorem Reconnect_only_errors:
  "(Reconnect E fuel c w0 = Return (Some e, w') \<longrightarrow>
      (ConnString (rc w0) = [] \<and> e = ErrNoConnString)
      \<or> (\<exists>err. Retry E fuel c (retry_policy w0) (retry_start c w0) = Return (Some err, w')
               \<and> errors_As_Permanent err = Some (Some e)))
   \<and> (ConnString (rc w0) \<noteq> []
        \<and> Retry E fuel c (retry_policy w0) (retry_start c w0) = Return (Some err, w')
        \<and> errors_As_Permanent err = None \<longrightarrow>
      Reconnect E fuel c w0 = Return (None, w'))"
proof (cases "ConnString (rc w0) = []")
  case True
  then show ?thesis by (simp add: Reconnect_empty)
next
  case False
  then show ?thesis
    by (auto simp: Reconnect_unfold split: result.splits option.splits prod.splits)
qed

theorem Reconnect_only_errors_witness:
  "Reconnect live_server 3 0 (fresh []) = Return (Some ErrNoConnString, no_target)
   \<and> ConnString (rc (fresh [])) = []
   \<and> ConnString (rc (fresh ''db'')) \<noteq> []
   \<and> Retry dead_server 3 0 (retry_policy (fresh ''db'')) (retry_start 0 (fresh ''db''))
       = Return (Some (Driver connection_refused), gave_up)
   \<and> errors_As_Permanent (Driver connection_refused) = None
   \<and> Reconnect dead_server 3 0 (fresh ''db'') = Return (None, gave_up)"
proof -
  have returned: "Reconnect live_server 3 0 (fresh []) = Return (Some ErrNoConnString, no_target)"
    by (simp add: eval_defs)
  have empty: "ConnString (rc (fresh [])) = []" by (simp add: fresh_def)
  have target: "ConnString (rc (fresh ''db'')) \<noteq> []" by (simp add: fresh_def)
  have suppressed: "Reconnect dead_server 3 0 (fresh ''db'') = Return (None, gave_up)"
    using Reconnect_only_errors [of dead_server 3 0 "fresh ''db''" ErrReconnect gave_up
        "Driver connection_refused"]
      target dead_server_gives_up
    by simp
  have "ConnString (rc (fresh [])) = [] \<and> ErrNoConnString = ErrNoConnString
        \<or> (\<exists>err. Retry live_server 3 0 (retry_policy (fresh [])) (retry_start 0 (fresh []))
                    = Return (Some err, no_target)
                  \<and> errors_As_Permanent err = Some (Some ErrNoConnString))"
    using Reconnect_only_errors [of live_server 3 0 "fresh []" ErrNoConnString no_target
        ErrReconnect] returned
    by blast
  then show ?thesis
    using returned empty target dead_server_gives_up suppressed by simp
qed

text \<open>
  C6, as the code has it. \<open>Connect\<close> with an empty connection string fails with
  \<open>ErrNoConnString\<close> and calls nothing. \<open>Reconnect\<close> on an empty connection string
  fails with \<open>ErrNoConnString\<close> and attempts no connection; it first closes and clears
  the handle it holds, if any, and that close is its only call to the driver.
\<close>

theorem empty_target_fails:
  "Connect E fuel c [] bo tr = Return ((None, Some ErrNoConnString), tr)
   \<and> (ConnString (rc w0) = [] \<longrightarrow>
        (\<exists>w'. Reconnect E fuel c w0 = Return (Some ErrNoConnString, w')
            \<and> Conn (rc w') = None
            \<and> driver_calls (trace w') =
                driver_calls (trace w0) @ (case Conn (rc w0) of None \<Rightarrow> [] | Some h \<Rightarrow> [CallClose c h])))"
  by (auto simp: Connect_def Reconnect_empty call_def set_Conn_def driver_calls_def
      split: option.splits)

theorem empty_target_fails_witness:
  "ConnString (rc (holding [] 7)) = []
   \<and> Reconnect live_server 5 0 (holding [] 7) =
       Return (Some ErrNoConnString,
         \<lparr>rc = \<lparr>ConnString = [], Conn = None, Backoff = None\<rparr>,
          trace = [EnterReconnect, CallClose 0 7]\<rparr>)
   \<and> ConnString (rc (fresh [])) = []
   \<and> Reconnect live_server 5 0 (fresh []) =
       Return (Some ErrNoConnString,
         \<lparr>rc = \<lparr>ConnString = [], Conn = None, Backoff = None\<rparr>, trace = [EnterReconnect]\<rparr>)"
  using empty_target_fails [of live_server 5 0 None "[]" "holding [] 7"]
    empty_target_fails [of live_server 5 0 None "[]" "fresh []"]
  by (simp add: eval_defs)

text \<open>
  C6 as the spec states it fails for \<open>Reconnect\<close>: with an empty connection string
  and a handle, the driver's close is called on the handle before the failure.
\<close>

theorem Reconnect_empty_target_closes_handle:
  "Reconnect live_server 5 0 (holding [] 7) =
     Return (Some ErrNoConnString,
       \<lparr>rc = \<lparr>ConnString = [], Conn = None, Backoff = None\<rparr>,
        trace = [EnterReconnect, CallClose 0 7]\<rparr>)
   \<and> driver_calls (trace (holding [] 7)) = []
   \<and> driver_calls [EnterReconnect, CallClose 0 7] = [CallClose 0 7]"
  by (simp add: eval_defs)

subsection \<open>Close\<close>

text \<open>
  C7. Without a handle, or with a handle that is closed, \<open>Close\<close> changes nothing and
  returns nil. Otherwise it calls the driver's close once, clears the handle whatever
  the close reports, and returns the close's error. A second \<open>Close\<close> right after
  returns nil and changes nothing, so the driver's close is called at most once.
\<close>

theorem Close_idempotent:
  "(Conn (rc w) = None \<or> (\<exists>h. Conn (rc w) = Some h \<and> conn_IsClosed E (trace w) h) \<longrightarrow>
      Close E c w = (None, w))
   \<and> (Conn (rc w) = Some h \<and> \<not> conn_IsClosed E (trace w) h \<longrightarrow>
        fst (Close E c w) = map_option Driver (conn_Close E (trace w) c h)
        \<and> Conn (rc (snd (Close E c w))) = None
        \<and> trace (snd (Close E c w)) = trace w @ [CallClose c h])
   \<and> Close E c' (snd (Close E c w)) = (None, snd (Close E c w))
   \<and> closes (trace (snd (Close E c' (snd (Close E c w))))) \<le> closes (trace w) + 1"
  by (auto simp: Close_def Let_def call_def set_Conn_def closes_def split: option.splits)

theorem Close_idempotent_witness:
  "Conn (rc (holding ''db'' 1)) = Some 1
   \<and> \<not> conn_IsClosed live_server (trace (holding ''db'' 1)) 1
   \<and> fst (Close live_server 0 (holding ''db'' 1)) = Some (Driver conn_closed)
   \<and> Conn (rc (snd (Close live_server 0 (holding ''db'' 1)))) = None
   \<and> trace (snd (Close live_server 0 (holding ''db'' 1))) = [CallClose 0 1]
   \<and> Close live_server 0 (snd (Close live_server 0 (holding ''db'' 1)))
       = (None, snd (Close live_server 0 (holding ''db'' 1)))
   \<and> Conn (rc (fresh ''db'')) = None
   \<and> Close live_server 0 (fresh ''db'') = (None, fresh ''db'')"
  using Close_idempotent [of "holding ''db'' 1" live_server 0 1 0]
    Close_idempotent [of "fresh ''db''" live_server 0 1 0]
  by (simp add: holding_def fresh_def live_server_def)

subsection \<open>The operations\<close>

lemma live_check: "checkConn live_server 3 0 (holding ''db'' 1) = Return (None, holding ''db'' 1)"
  by (simp add: eval_defs)

lemma checkConn_no_Panic: "checkConn E fuel c w \<noteq> Panic"
  by (simp add: checkConn_def Reconnect_no_Panic split: option.splits)




text \<open>
  C4. When the health check has passed and the delegated call of \<open>Query\<close>, \<open>Exec\<close> or
  \<open>Ping\<close> fails with an error that is not retryable, the operation returns the driver's
  result and error as they are, and the delegated call is the last event: no other
  driver call and no reconnect follow it.
\<close>

theorem nonretryable_passed_through:
  assumes "checkConn E fuel c w = Return (None, w1)"
    and "Conn (rc w1) = Some h"
    and "\<not> reconnectable e"
  shows "(conn_Query E (trace w1) c h sql args = (rs, Some e) \<longrightarrow>
            Query E fuel c sql args w =
              Return ((rs, Some (Driver e)), call (CallQuery c h sql args) w1))
       \<and> (conn_Exec E (trace w1) c h sql args = (tag, Some e) \<longrightarrow>
            Exec E fuel c sql args w =
              Return ((tag, Some (Driver e)), call (CallExec c h sql args) w1))
       \<and> (conn_Ping E (trace w1) c h = Some e \<longrightarrow>
            Ping E fuel c w = Return (Some (Driver e), call (CallPing c h) w1))"
  using assms by (simp add: Query_def Exec_def Ping_def Let_def)

theorem nonretryable_passed_through_witness:
  "checkConn live_server 3 0 (holding ''db'' 1) = Return (None, holding ''db'' 1)
   \<and> Conn (rc (holding ''db'' 1)) = Some 1
   \<and> \<not> reconnectable syntax_error
   \<and> Query live_server 3 0 ''selec 1'' [] (holding ''db'' 1) =
       Return ((Some 0, Some (Driver syntax_error)),
               call (CallQuery 0 1 ''selec 1'' []) (holding ''db'' 1))
   \<and> Exec live_server 3 0 ''selec 1'' [] (holding ''db'' 1) =
       Return ((''SELECT 0'', Some (Driver syntax_error)),
               call (CallExec 0 1 ''selec 1'' []) (holding ''db'' 1))
   \<and> Ping live_server 3 0 (holding ''db'' 1) =
       Return (Some (Driver syntax_error), call (CallPing 0 1) (holding ''db'' 1))"
proof -
  have handle: "Conn (rc (holding ''db'' 1)) = Some 1" by (simp add: holding_def)
  have fatal: "\<not> reconnectable syntax_error" by (simp add: reconnectable_def syntax_error_def)
  have answers:
    "conn_Query live_server (trace (holding ''db'' 1)) 0 1 ''selec 1'' [] = (Some 0, Some syntax_error)"
    "conn_Exec live_server (trace (holding ''db'' 1)) 0 1 ''selec 1'' [] = (''SELECT 0'', Some syntax_error)"
    "conn_Ping live_server (trace (holding ''db'' 1)) 0 1 = Some syntax_error"
    by (simp_all add: live_server_def)
  show ?thesis
    using handle fatal live_check answers
      nonretryable_passed_through [OF live_check handle fatal,
        of "''selec 1''" "[]" "Some 0" "''SELECT 0''"]
    by simp
qed

text \<open>
  The retry of \<open>Query\<close> after a retryable failure: one \<open>Reconnect\<close>; its error gives
  the composite error; without an error the query runs once more on the handle
  \<open>Reconnect\<close> stored, if it stored one.
\<close>

lemma Query_retryable:
  assumes "checkConn E fuel c w = Return (None, w1)"
    and "Conn (rc w1) = Some h"
    and "conn_Query E (trace w1) c h sql args = (rs, Some e)"
    and "reconnectable e"
  shows "(Reconnect E fuel c (call (CallQuery c h sql args) w1) = Return (Some re, w3) \<longrightarrow>
            Query E fuel c sql args w =
              Return ((None, Some (Errorf3 ErrReconnect re (Driver e))), w3))
       \<and> (Reconnect E fuel c (call (CallQuery c h sql args) w1) = Return (None, w3)
            \<and> Conn (rc w3) = Some h' \<longrightarrow>
            Query E fuel c sql args w =
              Return ((fst (conn_Query E (trace w3) c h' sql args),
                       map_option Driver (snd (conn_Query E (trace w3) c h' sql args))),
                      call (CallQuery c h' sql args) w3))
       \<and> (Reconnect E fuel c (call (CallQuery c h sql args) w1) = Return (None, w3)
            \<and> Conn (rc w3) = None \<longrightarrow>
            Query E fuel c sql args w = Panic)"
  using assms by (simp add: Query_def Let_def split: prod.splits)

lemma Exec_retryable:
  assumes "checkConn E fuel c w = Return (None, w1)"
    and "Conn (rc w1) = Some h"
    and "conn_Exec E (trace w1) c h sql args = (tag, Some e)"
    and "reconnectable e"
  shows "(Reconnect E fuel c (call (CallExec c h sql args) w1) = Return (Some re, w3) \<longrightarrow>
            Exec E fuel c sql args w =
              Return (([], Some (Errorf3 ErrReconnect re (Driver e))), w3))
       \<and> (Reconnect E fuel c (call (CallExec c h sql args) w1) = Return (None, w3)
            \<and> Conn (rc w3) = Some h' \<longrightarrow>
            Exec E fuel c sql args w =
              Return ((fst (conn_Exec E (trace w3) c h' sql args),
                       map_option Driver (snd (conn_Exec E (trace w3) c h' sql args))),
                      call (CallExec c h' sql args) w3))
       \<and> (Reconnect E fuel c (call (CallExec c h sql args) w1) = Return (None, w3)
            \<and> Conn (rc w3) = None \<longrightarrow>
            Exec E fuel c sql args w = Panic)"
  using assms by (simp add: Exec_def Let_def split: prod.splits)

lemma Ping_retryable:
  assumes "checkConn E fuel c w = Return (None, w1)"
    and "Conn (rc w1) = Some h"
    and "conn_Ping E (trace w1) c h = Some e"
    and "reconnectable e"
  shows "(Reconnect E fuel c (call (CallPing c h) w1) = Return (Some re, w3) \<longrightarrow>
            Ping E fuel c w = Return (Some (Errorf3 ErrReconnect re (Driver e)), w3))
       \<and> (Reconnect E fuel c (call (CallPing c h) w1) = Return (None, w3)
            \<and> Conn (rc w3) = Some h' \<longrightarrow>
            Ping E fuel c w =
              Return (map_option Driver (conn_Ping E (trace w3) c h'), call (CallPing c h') w3))
       \<and> (Reconnect E fuel c (call (CallPing c h) w1) = Return (None, w3)
            \<and> Conn (rc w3) = None \<longrightarrow>
            Ping E fuel c w = Panic)"
  using assms by (simp add: Ping_def Let_def)

lemma composite_wraps_both:
  "Unwrap (Errorf3 ErrReconnect re (Driver e)) = [ErrReconnect, re, Driver e]"
  by simp

lemma restarted_server_Query:
  "Query restarted_server 3 0 ''select 1'' [] (holding ''db'' 1) =
     Return ((Some 7, None),
       \<lparr>rc = \<lparr>ConnString = ''db'', Conn = Some 2, Backoff = Some NewExponentialBackOff\<rparr>,
        trace = [CallQuery 0 1 ''select 1'' [], EnterReconnect, CallClose 0 1,
                 CallConnect 0 ''db'', CallQuery 0 2 ''select 1'' []]\<rparr>)
   \<and> reconnects [CallQuery 0 1 ''select 1'' [], EnterReconnect, CallClose 0 1,
                  CallConnect 0 ''db'', CallQuery 0 2 ''select 1'' []] = 1"
  by (simp add: eval_defs)

text \<open>
  C2 at a server that is down. The handle is healthy, the delegated call reports a
  closed connection, which is retryable; the one \<open>Reconnect\<close> closes the handle, its
  retry loop gives up with a failure that is not permanent, and it returns nil with no
  handle stored. \<open>Query\<close>, \<open>Exec\<close> and \<open>Ping\<close> then call the driver through the nil
  handle and panic: they return neither the composite error nor a second outcome.
\<close>

theorem retry_through_nil_handle_panics:
  "checkConn dead_server 3 0 (holding ''db'' 1) = Return (None, holding ''db'' 1)
   \<and> conn_Query dead_server (trace (holding ''db'' 1)) 0 1 ''select 1'' [] = (None, Some conn_closed)
   \<and> reconnectable conn_closed
   \<and> Reconnect dead_server 3 0 (call (CallQuery 0 1 ''select 1'' []) (holding ''db'' 1)) =
       Return (None,
         \<lparr>rc = \<lparr>ConnString = ''db'', Conn = None, Backoff = Some NewExponentialBackOff\<rparr>,
          trace = [CallQuery 0 1 ''select 1'' [], EnterReconnect, CallClose 0 1,
                   CallConnect 0 ''db'']\<rparr>)
   \<and> Query dead_server 3 0 ''select 1'' [] (holding ''db'' 1) = Panic
   \<and> Exec dead_server 3 0 ''select 1'' [] (holding ''db'' 1) = Panic
   \<and> Ping dead_server 3 0 (holding ''db'' 1) = Panic"
  by (simp add: eval_defs)

text \<open>
  C10 at a server that is down. There is no handle; the health check reconnects, the
  retry loop gives up with a failure that is not permanent, and the health check
  returns nil with the handle still nil. Each of the four operations then calls the
  driver through the nil handle and panics.
\<close>

theorem health_check_leaves_nil_handle:
  "checkConn dead_server 3 0 (fresh ''db'') = Return (None, gave_up)
   \<and> Conn (rc gave_up) = None
   \<and> Query dead_server 3 0 ''select 1'' [] (fresh ''db'') = Panic
   \<and> QueryRow dead_server 3 0 ''select 1'' [] (fresh ''db'') = Panic
   \<and> Exec dead_server 3 0 ''select 1'' [] (fresh ''db'') = Panic
   \<and> Ping dead_server 3 0 (fresh ''db'') = Panic"
  by (simp add: eval_defs)

end
